theory Spec2Isabelle
  imports Complex_Main
begin

section \<open>Billing software: monetary computation, invoice numbers and the invoice ledger\<close>

text \<open>
  This theory embeds the two billing programs \<^verbatim>\<open>IEEE_BILLING.py\<close> and
  \<^verbatim>\<open>ROBOCEK_BILLING.py\<close>. The programs are thin layers over Python's
  \<^verbatim>\<open>decimal\<close> and \<^verbatim>\<open>csv\<close> modules, so the semantics of the library
  calls they make is part of the model:

  \<^item> text is a list of characters; a character stands for the Unicode code point of the
    same number, so the alphabet of the model is the code points below 256;
  \<^item> a \<^verbatim>\<open>Decimal\<close> is a sign, a coefficient and an exponent, or an infinity, or a
    NaN; arithmetic runs in the default context (28 significant digits, round-half-even,
    exponents between -999999 and 999999, with InvalidOperation, DivisionByZero and
    Overflow raised as exceptions);
  \<^item> a raised exception is the left summand of a result, and a function that changes the
    application returns the changed application as well, also when it raises.

  Resource limits of the libraries (the 131072-character field limit of the csv reader, the
  limit on the number of digits \<^verbatim>\<open>int\<close> converts) are not part of the model.
\<close>

subsection \<open>Exceptions\<close>

datatype exn = InvalidOperation | Overflow | DivisionByZero | ValueError | OSError | CsvError

definition and_then :: "exn + 'a \<Rightarrow> ('a \<Rightarrow> exn + 'b) \<Rightarrow> exn + 'b" where
  "and_then r f = (case r of Inl x \<Rightarrow> Inl x | Inr v \<Rightarrow> f v)"

subsection \<open>Characters and text\<close>

definition code :: "char \<Rightarrow> nat" where
  "code c = of_char c"

text \<open>\<^verbatim>\<open>str.isspace\<close> on the code points below 256.\<close>

definition isspace :: "char \<Rightarrow> bool" where
  "isspace c = ((9 \<le> code c \<and> code c \<le> 13) \<or> (28 \<le> code c \<and> code c \<le> 32)
                \<or> code c = 133 \<or> code c = 160)"

text \<open>\<^verbatim>\<open>str.strip()\<close>: leading and trailing whitespace removed.\<close>

definition strip :: "string \<Rightarrow> string" where
  "strip s = rev (dropWhile isspace (rev (dropWhile isspace s)))"

definition is_dec_digit :: "char \<Rightarrow> bool" where
  "is_dec_digit c = (48 \<le> code c \<and> code c \<le> 57)"

definition digit_val :: "char \<Rightarrow> nat" where
  "digit_val c = code c - 48"

definition digits_val :: "string \<Rightarrow> nat" where
  "digits_val s = foldl (\<lambda>a c. 10 * a + digit_val c) 0 s"

definition all_dec_digits :: "string \<Rightarrow> bool" where
  "all_dec_digits s = list_all is_dec_digit s"

text \<open>The lower-case form of an ASCII letter, as the Decimal parser compares letters.\<close>

definition lower :: "char \<Rightarrow> char" where
  "lower c =
     (case map_of (zip ''ABCDEFGHIJKLMNOPQRSTUVWXYZ'' ''abcdefghijklmnopqrstuvwxyz'') c of
        None \<Rightarrow> c
      | Some l \<Rightarrow> l)"

subsection \<open>Decimal values and the default context\<close>

text \<open>
  \<open>Finite s c e\<close> is \<open>(-1)\<^sup>s \<times> c \<times> 10\<^sup>e\<close> with \<open>s = True\<close> for a negative sign;
  \<open>NaN g s p\<close> is a NaN with sign \<open>s\<close> and payload \<open>p\<close>, signalling when \<open>g\<close> holds
  and quiet otherwise.
\<close>

datatype decimal = Finite bool nat int | Infinity bool | NaN bool bool nat

definition prec :: nat where "prec = 28"
definition Emax :: int where "Emax = 999999"
definition Emin :: int where "Emin = - 999999"
definition Etiny :: int where "Etiny = Emin - (int prec - 1)"
definition Etop :: int where "Etop = Emax - (int prec - 1)"

text \<open>The number of decimal digits of a coefficient: \<^verbatim>\<open>len(str(c))\<close>.\<close>

fun ndigits :: "nat \<Rightarrow> nat" where
  "ndigits n = (if n < 10 then 1 else Suc (ndigits (n div 10)))"

declare ndigits.simps [simp del]

text \<open>
  Dropping the last \<open>k\<close> digits of a coefficient, under the two rounding modes used.
  When more digits are dropped than the coefficient has, the library rounds a stand-in
  digit 1 below the last place, which gives 0 in both modes.
\<close>

definition round_half_even :: "nat \<Rightarrow> nat \<Rightarrow> nat" where
  "round_half_even c k =
     (if ndigits c < k then 0
      else let q = c div 10 ^ k; r = c mod 10 ^ k
           in if 2 * r > 10 ^ k \<or> (2 * r = 10 ^ k \<and> odd q) then q + 1 else q)"

definition round_half_up :: "nat \<Rightarrow> nat \<Rightarrow> nat" where
  "round_half_up c k =
     (if ndigits c < k then 0
      else let q = c div 10 ^ k; r = c mod 10 ^ k
           in if 2 * r \<ge> 10 ^ k then q + 1 else q)"

text \<open>
  The context's final rounding of an exact finite result (\<^verbatim>\<open>Decimal._fix\<close>): a
  coefficient of more than 28 digits is rounded half-even, a result too large raises
  Overflow, a result below the smallest exponent is rounded there.
\<close>

definition fix_ctx :: "bool \<Rightarrow> nat \<Rightarrow> int \<Rightarrow> exn + decimal" where
  "fix_ctx s c e =
     (if c = 0 then Inr (Finite s 0 (min (max e Etiny) Emax))
      else
        let exp_min0 = int (ndigits c) + e - int prec in
        if exp_min0 > Etop then Inl Overflow
        else
          let exp_min = max exp_min0 Etiny in
          if e < exp_min then
            (let c1 = round_half_even c (nat (exp_min - e)) in
             if ndigits c1 > prec then
               (if exp_min + 1 > Etop then Inl Overflow
                else Inr (Finite s (c1 div 10) (exp_min + 1)))
             else Inr (Finite s c1 exp_min))
          else Inr (Finite s c e))"

text \<open>
  A NaN operand of an operation (\<^verbatim>\<open>_check_nans\<close>): a signalling NaN raises
  InvalidOperation, a quiet NaN is the result, its payload cut to the precision.
\<close>

definition fix_nan :: "bool \<Rightarrow> bool \<Rightarrow> nat \<Rightarrow> exn + decimal" where
  "fix_nan g s p = (if g then Inl InvalidOperation else Inr (NaN False s (p mod 10 ^ prec)))"

text \<open>
  \<^verbatim>\<open>Decimal(text)\<close>: whitespace is stripped from both ends, underscores are dropped,
  then the text is a sign followed by an infinity, a NaN with optional payload digits, or
  digits with at most one point and an optional exponent. The conversion is exact; it
  raises InvalidOperation on any other text and on a literal whose exponent is outside what
  the library can represent (\<open>None\<close> here: the one caller catches it).
\<close>

definition split_sign :: "string \<Rightarrow> bool \<times> string" where
  "split_sign s =
     (case s of
        [] \<Rightarrow> (False, [])
      | c # r \<Rightarrow> if c = CHR ''-'' then (True, r) else if c = CHR ''+'' then (False, r) else (False, s))"

definition parse_exponent :: "string \<Rightarrow> int option" where
  "parse_exponent s =
     (let (neg, ds) = split_sign s
      in if ds \<noteq> [] \<and> all_dec_digits ds
         then Some (if neg then - int (digits_val ds) else int (digits_val ds))
         else None)"

definition parse_number :: "string \<Rightarrow> (nat \<times> int) option" where
  "parse_number s =
     (let mant = takeWhile (\<lambda>c. lower c \<noteq> CHR ''e'') s;
          rest = dropWhile (\<lambda>c. lower c \<noteq> CHR ''e'') s;
          ip = takeWhile (\<lambda>c. c \<noteq> CHR ''.'') mant;
          fp = drop 1 (dropWhile (\<lambda>c. c \<noteq> CHR ''.'') mant)
      in if all_dec_digits ip \<and> all_dec_digits fp \<and> ip @ fp \<noteq> []
         then (case (if rest = [] then Some 0 else parse_exponent (tl rest)) of
                 None \<Rightarrow> None
               | Some x \<Rightarrow> Some (digits_val (ip @ fp), x - int (length fp)))
         else None)"

definition max_exponent :: int where "max_exponent = 999999999999999999"

definition representable :: "nat \<Rightarrow> int \<Rightarrow> bool" where
  "representable c e =
     (e \<ge> - (2 * max_exponent - 1) \<and>
      (if c = 0 then e \<le> max_exponent else e + int (ndigits c) - 1 \<le> max_exponent))"

definition Decimal_str :: "string \<Rightarrow> decimal option" where
  "Decimal_str v =
     (let t = filter (\<lambda>c. c \<noteq> CHR ''_'') (strip v);
          (neg, u) = split_sign t;
          l = map lower u
      in if l = ''inf'' \<or> l = ''infinity'' then Some (Infinity neg)
         else if take 3 l = ''nan'' \<and> all_dec_digits (drop 3 l)
           then Some (NaN False neg (digits_val (drop 3 l)))
         else if take 4 l = ''snan'' \<and> all_dec_digits (drop 4 l)
           then Some (NaN True neg (digits_val (drop 4 l)))
         else (case parse_number u of
                 None \<Rightarrow> None
               | Some (c, e) \<Rightarrow> if representable c e then Some (Finite neg c e) else None))"

text \<open>
  \<^verbatim>\<open>d.quantize(Decimal("0.01"), rounding=ROUND_HALF_UP)\<close>: the value at exponent -2,
  rounded half-up. A quiet NaN is returned; a signalling NaN, an infinity and a result of
  more than 28 digits raise InvalidOperation.
\<close>

fun quantize_cent :: "decimal \<Rightarrow> exn + decimal" where
  "quantize_cent (NaN g s p) = fix_nan g s p"
| "quantize_cent (Infinity s) = Inl InvalidOperation"
| "quantize_cent (Finite s c e) =
     (if c = 0 then Inr (Finite s 0 (- 2))
      else if e + int (ndigits c) - 1 > Emax then Inl InvalidOperation
      else if e + int (ndigits c) - 1 + 2 + 1 > int prec then Inl InvalidOperation
      else
        let c1 = (if e \<ge> - 2 then c * 10 ^ nat (e + 2) else round_half_up c (nat (- 2 - e)))
        in if ndigits c1 > prec then Inl InvalidOperation else Inr (Finite s c1 (- 2)))"

subsection \<open>Arithmetic in the default context\<close>

text \<open>
  Addition, subtraction and multiplication give the exact result, rounded by the context.
  A signalling NaN operand raises InvalidOperation, a quiet one gives a quiet NaN.
\<close>

definition negate :: "decimal \<Rightarrow> decimal" where
  "negate d =
     (case d of
        Finite s c e \<Rightarrow> Finite (\<not> s) c e
      | Infinity s \<Rightarrow> Infinity (\<not> s)
      | NaN g s p \<Rightarrow> NaN g (\<not> s) p)"

fun is_snan :: "decimal \<Rightarrow> bool" where
  "is_snan (NaN g s p) = g"
| "is_snan _ = False"

fun dec_add :: "decimal \<Rightarrow> decimal \<Rightarrow> exn + decimal" where
  "dec_add (NaN g s p) b = (if is_snan b then Inl InvalidOperation else fix_nan g s p)"
| "dec_add a (NaN g s p) = fix_nan g s p"
| "dec_add (Infinity s1) (Infinity s2) = (if s1 = s2 then Inr (Infinity s1) else Inl InvalidOperation)"
| "dec_add (Infinity s1) (Finite s2 c2 e2) = Inr (Infinity s1)"
| "dec_add (Finite s1 c1 e1) (Infinity s2) = Inr (Infinity s2)"
| "dec_add (Finite s1 c1 e1) (Finite s2 c2 e2) =
     (let e = min e1 e2;
          x = (if s1 then - int (c1 * 10 ^ nat (e1 - e)) else int (c1 * 10 ^ nat (e1 - e)));
          y = (if s2 then - int (c2 * 10 ^ nat (e2 - e)) else int (c2 * 10 ^ nat (e2 - e)))
      in if x + y = 0 then fix_ctx (c1 = 0 \<and> c2 = 0 \<and> s1 \<and> s2) 0 e
         else fix_ctx (x + y < 0) (nat \<bar>x + y\<bar>) e)"

fun dec_sub :: "decimal \<Rightarrow> decimal \<Rightarrow> exn + decimal" where
  "dec_sub (NaN g s p) b = (if is_snan b then Inl InvalidOperation else fix_nan g s p)"
| "dec_sub a (NaN g s p) = fix_nan g s p"
| "dec_sub a b = dec_add a (negate b)"

fun dec_mul :: "decimal \<Rightarrow> decimal \<Rightarrow> exn + decimal" where
  "dec_mul (NaN g s p) b = (if is_snan b then Inl InvalidOperation else fix_nan g s p)"
| "dec_mul a (NaN g s p) = fix_nan g s p"
| "dec_mul (Infinity s1) (Infinity s2) = Inr (Infinity (s1 \<noteq> s2))"
| "dec_mul (Infinity s1) (Finite s2 c2 e2) =
     (if c2 = 0 then Inl InvalidOperation else Inr (Infinity (s1 \<noteq> s2)))"
| "dec_mul (Finite s1 c1 e1) (Infinity s2) =
     (if c1 = 0 then Inl InvalidOperation else Inr (Infinity (s1 \<noteq> s2)))"
| "dec_mul (Finite s1 c1 e1) (Finite s2 c2 e2) = fix_ctx (s1 \<noteq> s2) (c1 * c2) (e1 + e2)"

text \<open>
  Division (\<^verbatim>\<open>Decimal.__truediv__\<close>): the quotient is computed to one digit more than
  the precision, with a sticky last digit when the division is inexact; an exact quotient
  is brought as close to the ideal exponent as its trailing zeros allow.
\<close>

function strip_zeros :: "nat \<Rightarrow> int \<Rightarrow> int \<Rightarrow> nat \<times> int" where
  "strip_zeros coeff ex ideal =
     (if ex < ideal \<and> coeff mod 10 = 0 then strip_zeros (coeff div 10) (ex + 1) ideal
      else (coeff, ex))"
  by pat_completeness auto
termination
  by (relation "measure (\<lambda>(coeff, ex, ideal). nat (ideal - ex))") auto

declare strip_zeros.simps [simp del]

fun dec_div :: "decimal \<Rightarrow> decimal \<Rightarrow> exn + decimal" where
  "dec_div (NaN g s p) b = (if is_snan b then Inl InvalidOperation else fix_nan g s p)"
| "dec_div a (NaN g s p) = fix_nan g s p"
| "dec_div (Infinity s1) (Infinity s2) = Inl InvalidOperation"
| "dec_div (Infinity s1) (Finite s2 c2 e2) = Inr (Infinity (s1 \<noteq> s2))"
| "dec_div (Finite s1 c1 e1) (Infinity s2) = Inr (Finite (s1 \<noteq> s2) 0 Etiny)"
| "dec_div (Finite s1 c1 e1) (Finite s2 c2 e2) =
     (if c2 = 0 then (if c1 = 0 then Inl InvalidOperation else Inl DivisionByZero)
      else if c1 = 0 then fix_ctx (s1 \<noteq> s2) 0 (e1 - e2)
      else
        let shift = int (ndigits c2) - int (ndigits c1) + int prec + 1;
            ex = e1 - e2 - shift;
            n = (if shift \<ge> 0 then c1 * 10 ^ nat shift else c1);
            d = (if shift \<ge> 0 then c2 else c2 * 10 ^ nat (- shift));
            coeff = n div d;
            remainder = n mod d
        in if remainder \<noteq> 0
           then fix_ctx (s1 \<noteq> s2) (if coeff mod 5 = 0 then coeff + 1 else coeff) ex
           else (case strip_zeros coeff ex (e1 - e2) of
                   (coeff', ex') \<Rightarrow> fix_ctx (s1 \<noteq> s2) coeff' ex'))"



text \<open>
  \<^verbatim>\<open>sum(...)\<close> over Decimals: the running sum starts at the integer 0 and adds the
  elements from left to right.
\<close>

fun sum_from :: "decimal \<Rightarrow> decimal list \<Rightarrow> exn + decimal" where
  "sum_from acc [] = Inr acc"
| "sum_from acc (t # ts) = and_then (dec_add acc t) (\<lambda>a. sum_from a ts)"

definition py_sum :: "decimal list \<Rightarrow> exn + decimal" where
  "py_sum ts = sum_from (Finite False 0 0) ts"

subsection \<open>The utility helper \<^verbatim>\<open>D\<close>\<close>

text \<open>
  \<^verbatim>\<open>
  def D(v):
      try:
          d = Decimal(str(v))
      except (InvalidOperation, ValueError):
          d = Decimal("0")
      return d.quantize(Decimal("0.01"), rounding=ROUND_HALF_UP)
  \<close>
  The argument is a text (the content of an entry field) or a \<^verbatim>\<open>Decimal\<close> (from
  \<^verbatim>\<open>fmt_money\<close>); \<^verbatim>\<open>Decimal(str(d))\<close> is \<open>d\<close> for every Decimal \<open>d\<close>.
\<close>

datatype pyval = Text string | Num decimal

definition Decimal_of :: "pyval \<Rightarrow> decimal option" where
  "Decimal_of v = (case v of Text s \<Rightarrow> Decimal_str s | Num d \<Rightarrow> Some d)"

definition D :: "pyval \<Rightarrow> exn + decimal" where
  "D v =
     (let d = (case Decimal_of v of None \<Rightarrow> Finite False 0 0 | Some d \<Rightarrow> d)
      in quantize_cent d)"

subsection \<open>Rendering numbers as text\<close>

definition digit_char :: "nat \<Rightarrow> char" where
  "digit_char d = ''0123456789'' ! (d mod 10)"

text \<open>\<^verbatim>\<open>str(n)\<close> for a natural number.\<close>

fun str_nat :: "nat \<Rightarrow> string" where
  "str_nat n = (if n < 10 then [digit_char n] else str_nat (n div 10) @ [digit_char (n mod 10)])"

declare str_nat.simps [simp del]

fun commas :: "string \<Rightarrow> string" where
  "commas (a # b # c # d # r) = a # b # c # CHR '','' # commas (d # r)"
| "commas r = r"

definition group3 :: "string \<Rightarrow> string" where
  "group3 s = rev (commas (rev s))"

definition sign_text :: "bool \<Rightarrow> string" where
  "sign_text s = (if s then ''-'' else [])"

text \<open>
  The format specifications \<^verbatim>\<open>,.2f\<close> (\<open>grouped\<close>) and \<^verbatim>\<open>.2f\<close>: two
  fractional digits, rounded by the context's rounding mode when the value has more.
\<close>

fun format_2f :: "bool \<Rightarrow> decimal \<Rightarrow> string" where
  "format_2f grouped (Finite s c e) =
     (let c1 = (if e \<ge> - 2 then c * 10 ^ nat (e + 2) else round_half_even c (nat (- 2 - e)));
          ip = str_nat (c1 div 100)
      in sign_text s @ (if grouped then group3 ip else ip) @ ''.''
         @ [digit_char (c1 mod 100 div 10), digit_char (c1 mod 10)])"
| "format_2f grouped (Infinity s) = sign_text s @ ''Infinity''"
| "format_2f grouped (NaN g s p) =
     sign_text s @ (if g then ''sNaN'' else ''NaN'') @ (if p = 0 then [] else str_nat p)"



text \<open>
  \<^verbatim>\<open>
  def fmt_money(d):
      return f"{D(d):,.2f}"
  \<close>
\<close>

definition fmt_money :: "decimal \<Rightarrow> exn + string" where
  "fmt_money d = and_then (D (Num d)) (\<lambda>x. Inr (format_2f True x))"

subsection \<open>The application state\<close>

text \<open>
  An entry of \<^verbatim>\<open>self.items\<close>, and the variables of \<^verbatim>\<open>BillingApp\<close>. The item table
  \<^verbatim>\<open>self.tree\<close> is the list of its rows, in display order.
\<close>

record item =
  name :: string
  qty :: decimal
  price :: decimal
  total :: decimal

record app =
  chair_name :: string
  chair_position :: string
  recipient_name :: string
  recipient_phone :: string
  item_name :: string
  item_qty :: string
  item_price :: string
  discount_pct :: string
  tax_pct :: string
  items :: "item list"
  invoice_no_var :: string
  date_var :: string
  tree :: "(string \<times> string \<times> string \<times> string) list"
  subtotal_var :: string
  discount_amt_var :: string
  tax_amt_var :: string
  grand_total_var :: string



subsection \<open>The invoice calculator\<close>

text \<open>
  \<^verbatim>\<open>
  def _recalc_totals(self):
      subtotal = sum(it["total"] for it in self.items) if self.items else Decimal("0.00")
      self.subtotal_var.set(fmt_money(subtotal))
      try:
          discount_pct = D(self.discount_pct.get())
      except Exception:
          discount_pct = Decimal("0")
      discount_amt = (subtotal * discount_pct / Decimal("100")).quantize(Decimal("0.01"), rounding=ROUND_HALF_UP)
      self.discount_amt_var.set(fmt_money(discount_amt))
      try:
          tax_pct = D(self.tax_pct.get())
      except Exception:
          tax_pct = Decimal("0")
      taxable = (subtotal - discount_amt).quantize(Decimal("0.01"), rounding=ROUND_HALF_UP)
      tax_amt = (taxable * tax_pct / Decimal("100")).quantize(Decimal("0.01"), rounding=ROUND_HALF_UP)
      self.tax_amt_var.set(fmt_money(tax_amt))
      grand = (taxable + tax_amt).quantize(Decimal("0.01"), rounding=ROUND_HALF_UP)
      self.grand_total_var.set(fmt_money(grand))
  \<close>
  The model returns the local values next to the changed application, so that they can be
  spoken about; when a step raises, the variables set before it keep their new text.
\<close>

record totals =
  subtotal :: decimal
  discount_amt :: decimal
  taxable :: decimal
  tax_amt :: decimal
  grand :: decimal

definition hundred :: decimal where
  "hundred = Finite False 100 0"

text \<open>The percentage the calculator works with: \<^verbatim>\<open>D\<close> of the text, or 0 when that raises.\<close>

definition pct_of :: "string \<Rightarrow> decimal" where
  "pct_of txt = (case D (Text txt) of Inl x \<Rightarrow> Finite False 0 0 | Inr d \<Rightarrow> d)"

definition percent_amount :: "decimal \<Rightarrow> decimal \<Rightarrow> exn + decimal" where
  "percent_amount base pct =
     and_then (and_then (dec_mul base pct) (\<lambda>x. dec_div x hundred)) quantize_cent"

definition recalc_totals :: "app \<Rightarrow> (exn + totals) \<times> app" where
  "recalc_totals a =
     (case (if items a \<noteq> [] then py_sum (map total (items a)) else Inr (Finite False 0 (- 2))) of
        Inl x \<Rightarrow> (Inl x, a)
      | Inr sub \<Rightarrow>
     (case fmt_money sub of
        Inl x \<Rightarrow> (Inl x, a)
      | Inr sub_text \<Rightarrow>
     let a1 = a\<lparr>subtotal_var := sub_text\<rparr>;
         dpct = pct_of (discount_pct a1)
     in
     (case percent_amount sub dpct of
        Inl x \<Rightarrow> (Inl x, a1)
      | Inr damt \<Rightarrow>
     (case fmt_money damt of
        Inl x \<Rightarrow> (Inl x, a1)
      | Inr damt_text \<Rightarrow>
     let a2 = a1\<lparr>discount_amt_var := damt_text\<rparr>;
         tpct = pct_of (tax_pct a2)
     in
     (case and_then (dec_sub sub damt) quantize_cent of
        Inl x \<Rightarrow> (Inl x, a2)
      | Inr txbl \<Rightarrow>
     (case percent_amount txbl tpct of
        Inl x \<Rightarrow> (Inl x, a2)
      | Inr tamt \<Rightarrow>
     (case fmt_money tamt of
        Inl x \<Rightarrow> (Inl x, a2)
      | Inr tamt_text \<Rightarrow>
     let a3 = a2\<lparr>tax_amt_var := tamt_text\<rparr>
     in
     (case and_then (dec_add txbl tamt) quantize_cent of
        Inl x \<Rightarrow> (Inl x, a3)
      | Inr g \<Rightarrow>
     (case fmt_money g of
        Inl x \<Rightarrow> (Inl x, a3)
      | Inr g_text \<Rightarrow>
        (Inr \<lparr>subtotal = sub, discount_amt = damt, taxable = txbl, tax_amt = tamt, grand = g\<rparr>,
         a3\<lparr>grand_total_var := g_text\<rparr>))))))))))"

subsection \<open>Adding an item\<close>


subsection \<open>The csv module with the excel dialect\<close>

definition COMMA :: char where "COMMA = CHR '',''"
definition QUOTE :: char where "QUOTE = CHR 0x22"
definition CR :: char where "CR = CHR 0x0D"
definition LF :: char where "LF = CHR 0x0A"

text \<open>
  \<^verbatim>\<open>csv.writer(f).writerow(fields)\<close>: a field that holds the delimiter, the quote
  character or a character of the line terminator is quoted, its quotes doubled; the fields
  are joined by commas and ended by CR LF. A row of one empty field is written as two quotes.
\<close>

definition needs_quote :: "char \<Rightarrow> bool" where
  "needs_quote c = (c = COMMA \<or> c = QUOTE \<or> c = CR \<or> c = LF)"

definition write_field :: "string \<Rightarrow> string" where
  "write_field f =
     (if list_ex needs_quote f
      then QUOTE # concat (map (\<lambda>c. if c = QUOTE then [QUOTE, QUOTE] else [c]) f) @ [QUOTE]
      else f)"

fun join_fields :: "string list \<Rightarrow> string" where
  "join_fields [] = []"
| "join_fields [f] = f"
| "join_fields (f # g # r) = f @ COMMA # join_fields (g # r)"

definition writerow :: "string list \<Rightarrow> string" where
  "writerow fs =
     (if fs = [[]] then [QUOTE, QUOTE] else join_fields (map write_field fs)) @ [CR, LF]"

text \<open>
  Reading a file opened in text mode without \<^verbatim>\<open>newline=""\<close>: universal newlines
  turn CR LF and a lone CR into LF, and the file is iterated line by line, each line with
  its LF.
\<close>

fun universal_newlines :: "string \<Rightarrow> string" where
  "universal_newlines [] = []"
| "universal_newlines [c] = (if c = CR then [LF] else [c])"
| "universal_newlines (c # d # r) =
     (if c = CR then (if d = LF then LF # universal_newlines r else LF # universal_newlines (d # r))
      else c # universal_newlines (d # r))"

fun split_lines :: "string \<Rightarrow> string \<Rightarrow> string list" where
  "split_lines cur [] = (if cur = [] then [] else [cur])"
| "split_lines cur (c # r) =
     (if c = LF then (cur @ [c]) # split_lines [] r else split_lines (cur @ [c]) r)"

definition text_lines :: "string \<Rightarrow> string list" where
  "text_lines content = split_lines [] (universal_newlines content)"

text \<open>
  \<^verbatim>\<open>csv.reader\<close>: the parser of \<^verbatim>\<open>_csv.c\<close> for the excel dialect (no escape
  character, double quotes, not strict). It is fed the characters of a line and then an
  end-of-line event; a record is complete when the state is back at the start.
\<close>

datatype rstate = START_RECORD | START_FIELD | IN_FIELD | IN_QUOTED_FIELD
  | QUOTE_IN_QUOTED_FIELD | EAT_CRNL

datatype event = Ch char | EOL

record reader =
  rd_state :: rstate
  rd_fields :: "string list"
  rd_field :: string

definition parse_reset :: reader where
  "parse_reset = \<lparr>rd_state = START_RECORD, rd_fields = [], rd_field = []\<rparr>"

definition parse_save_field :: "reader \<Rightarrow> reader" where
  "parse_save_field r = r\<lparr>rd_fields := rd_fields r @ [rd_field r], rd_field := []\<rparr>"

definition parse_add_char :: "reader \<Rightarrow> char \<Rightarrow> reader" where
  "parse_add_char r c = r\<lparr>rd_field := rd_field r @ [c]\<rparr>"

definition end_of_line :: "reader \<Rightarrow> event \<Rightarrow> reader" where
  "end_of_line r ev =
     (parse_save_field r)\<lparr>rd_state := (if ev = EOL then START_RECORD else EAT_CRNL)\<rparr>"

definition is_newline :: "event \<Rightarrow> bool" where
  "is_newline ev = (ev = Ch LF \<or> ev = Ch CR)"

definition in_start_field :: "reader \<Rightarrow> event \<Rightarrow> exn + reader" where
  "in_start_field r ev =
     (case ev of
        EOL \<Rightarrow> Inr (end_of_line r ev)
      | Ch c \<Rightarrow>
          if is_newline ev then Inr (end_of_line r ev)
          else if c = QUOTE then Inr (r\<lparr>rd_state := IN_QUOTED_FIELD\<rparr>)
          else if c = COMMA then Inr (parse_save_field r)
          else Inr ((parse_add_char r c)\<lparr>rd_state := IN_FIELD\<rparr>))"

definition parse_process_char :: "reader \<Rightarrow> event \<Rightarrow> exn + reader" where
  "parse_process_char r ev =
     (case rd_state r of
        START_RECORD \<Rightarrow>
          if ev = EOL then Inr r
          else if is_newline ev then Inr (r\<lparr>rd_state := EAT_CRNL\<rparr>)
          else in_start_field (r\<lparr>rd_state := START_FIELD\<rparr>) ev
      | START_FIELD \<Rightarrow> in_start_field r ev
      | IN_FIELD \<Rightarrow>
          (case ev of
             EOL \<Rightarrow> Inr (end_of_line r ev)
           | Ch c \<Rightarrow>
               if is_newline ev then Inr (end_of_line r ev)
               else if c = COMMA then Inr ((parse_save_field r)\<lparr>rd_state := START_FIELD\<rparr>)
               else Inr (parse_add_char r c))
      | IN_QUOTED_FIELD \<Rightarrow>
          (case ev of
             EOL \<Rightarrow> Inr r
           | Ch c \<Rightarrow>
               if c = QUOTE then Inr (r\<lparr>rd_state := QUOTE_IN_QUOTED_FIELD\<rparr>)
               else Inr (parse_add_char r c))
      | QUOTE_IN_QUOTED_FIELD \<Rightarrow>
          (case ev of
             EOL \<Rightarrow> Inr (end_of_line r ev)
           | Ch c \<Rightarrow>
               if c = QUOTE then Inr ((parse_add_char r c)\<lparr>rd_state := IN_QUOTED_FIELD\<rparr>)
               else if c = COMMA then Inr ((parse_save_field r)\<lparr>rd_state := START_FIELD\<rparr>)
               else if is_newline ev then Inr (end_of_line r ev)
               else Inr ((parse_add_char r c)\<lparr>rd_state := IN_FIELD\<rparr>))
      | EAT_CRNL \<Rightarrow>
          if is_newline ev then Inr r
          else if ev = EOL then Inr (r\<lparr>rd_state := START_RECORD\<rparr>)
          else Inl CsvError)"

fun feed :: "reader \<Rightarrow> event list \<Rightarrow> exn + reader" where
  "feed r [] = Inr r"
| "feed r (ev # evs) = and_then (parse_process_char r ev) (\<lambda>r1. feed r1 evs)"

definition feed_line :: "reader \<Rightarrow> string \<Rightarrow> exn + reader" where
  "feed_line r line = feed r (map Ch line @ [EOL])"

text \<open>
  The rows the reader yields over the lines of a file, and the exception that ends the
  iteration if there is one. At the end of the input inside a quoted field the open record
  is yielded.
\<close>

fun read_records :: "reader \<Rightarrow> string list \<Rightarrow> string list list \<times> exn option" where
  "read_records r [] =
     (if rd_field r \<noteq> [] \<or> rd_state r = IN_QUOTED_FIELD
      then ([rd_fields (parse_save_field r)], None) else ([], None))"
| "read_records r (l # ls) =
     (case feed_line r l of
        Inl x \<Rightarrow> ([], Some x)
      | Inr r1 \<Rightarrow>
          if rd_state r1 = START_RECORD
          then (case read_records parse_reset ls of (rows, err) \<Rightarrow> (rd_fields r1 # rows, err))
          else read_records r1 ls)"

definition csv_reader :: "string list \<Rightarrow> string list list \<times> exn option" where
  "csv_reader ls = read_records parse_reset ls"

text \<open>
  \<^verbatim>\<open>csv.DictReader\<close>: the first row gives the field names, blank rows are skipped,
  and a row becomes a dictionary from field names to its fields. A field name the row is
  too short for is mapped to \<^verbatim>\<open>None\<close>; fields beyond the field names go under the key
  \<^verbatim>\<open>None\<close>, which no lookup of this program uses.
\<close>

datatype cell = Str string | NoneVal

definition dict_row :: "string list \<Rightarrow> string list \<Rightarrow> (string \<times> cell) list" where
  "dict_row fieldnames row =
     zip fieldnames (map Str row @ replicate (length fieldnames - length row) NoneVal)"

text \<open>\<^verbatim>\<open>row.get(key, "")\<close>; the last entry of a repeated field name counts.\<close>

definition get_field :: "(string \<times> cell) list \<Rightarrow> string \<Rightarrow> cell" where
  "get_field row key = (case map_of (rev row) key of None \<Rightarrow> Str [] | Some v \<Rightarrow> v)"

definition DictReader :: "string list \<Rightarrow> (string \<times> cell) list list \<times> exn option" where
  "DictReader ls =
     (case csv_reader ls of
        ([], err) \<Rightarrow> ([], err)
      | (fieldnames # rows, err) \<Rightarrow> (map (dict_row fieldnames) (filter (\<lambda>r. r \<noteq> []) rows), err))"

subsection \<open>The master invoice database\<close>

text \<open>
  The file \<^verbatim>\<open>invoice_database.csv\<close>: it does not exist, or it exists and cannot be
  opened, or it has a content.
\<close>

datatype dbfile = Missing | Blocked | File string

definition path_exists :: "dbfile \<Rightarrow> bool" where
  "path_exists f = (f \<noteq> Missing)"

definition header :: "string list" where
  "header = [''Invoice No'', ''Date'', ''Recipient'', ''Phone Number'', ''Items Count'',
     ''Subtotal'', ''Discount %'', ''Discount Amount'', ''Tax %'', ''Tax Amount'',
     ''Grand Total'', ''Chairperson'', ''Chair Position'']"

definition ledger_row :: "app \<Rightarrow> string list" where
  "ledger_row a =
     [invoice_no_var a, date_var a, recipient_name a, recipient_phone a,
      str_nat (length (items a)), subtotal_var a, discount_pct a, discount_amt_var a,
      tax_pct a, tax_amt_var a, grand_total_var a, chair_name a, chair_position a]"

text \<open>
  \<^verbatim>\<open>
  def save_to_master_db(self):
      if not self.items:
          return
      file_exists = os.path.exists(self.master_db_file)
      with open(self.master_db_file, "a", newline="", encoding="utf-8") as csvfile:
          writer = csv.writer(csvfile)
          if not file_exists:
              writer.writerow(["Invoice No", "Date", ..., "Chairperson", "Chair Position"])
          writer.writerow([self.invoice_no_var.get(), self.date_var.get(), ...,
                           len(self.items), ..., self.chair_position.get()])
  \<close>
\<close>

definition save_to_master_db :: "app \<Rightarrow> dbfile \<Rightarrow> exn option \<times> dbfile" where
  "save_to_master_db a f =
     (if items a = [] then (None, f)
      else
        let file_exists = path_exists f
        in (case f of
              Blocked \<Rightarrow> (Some OSError, f)
            | Missing \<Rightarrow>
                (None, File ((if \<not> file_exists then writerow header else []) @ writerow (ledger_row a)))
            | File c \<Rightarrow>
                (None, File (c @ (if \<not> file_exists then writerow header else [])
                               @ writerow (ledger_row a)))))"

text \<open>
  \<^verbatim>\<open>
  def refresh_history(self, tree):
      for item in tree.get_children():
          tree.delete(item)
      if os.path.exists(self.master_db_file):
          try:
              with open(self.master_db_file, "r", encoding="utf-8") as csvfile:
                  reader = csv.DictReader(csvfile)
                  for row in reader:
                      tree.insert("", "end", values=(row.get("Invoice No", ""), ...,
                                                     row.get("Grand Total", "")))
          except Exception as e:
              messagebox.showerror("Error", f"Error refreshing history: {str(e)}")
  \<close>
  The result is the rows of the history table and whether the error box was shown.
\<close>

definition history_columns :: "string list" where
  "history_columns = [''Invoice No'', ''Date'', ''Recipient'', ''Phone Number'', ''Items Count'',
     ''Subtotal'', ''Discount Amount'', ''Tax Amount'', ''Grand Total'']"

definition refresh_history :: "dbfile \<Rightarrow> cell list list \<times> bool" where
  "refresh_history f =
     (if path_exists f then
        (case f of
           File c \<Rightarrow>
             (case DictReader (text_lines c) of
                (rows, err) \<Rightarrow> (map (\<lambda>row. map (get_field row) history_columns) rows, err \<noteq> None))
         | _ \<Rightarrow> ([], True))
      else ([], False))"

subsection \<open>The invoice number\<close>

text \<open>The clock, and \<^verbatim>\<open>datetime.now().strftime("%Y%m%d%H%M%S")\<close>.\<close>

record datetime =
  year :: nat
  month :: nat
  day :: nat
  hour :: nat
  minute :: nat
  second :: nat

definition zero_pad :: "nat \<Rightarrow> nat \<Rightarrow> string" where
  "zero_pad w n = replicate (w - length (str_nat n)) CHR ''0'' @ str_nat n"

definition strftime_YmdHMS :: "datetime \<Rightarrow> string" where
  "strftime_YmdHMS t =
     zero_pad 4 (year t) @ zero_pad 2 (month t) @ zero_pad 2 (day t)
     @ zero_pad 2 (hour t) @ zero_pad 2 (minute t) @ zero_pad 2 (second t)"

text \<open>
  \<^verbatim>\<open>str.isdigit\<close> holds of a non-empty text of digit characters, which below code point
  256 are 0 to 9 and the superscripts two, three and one; \<^verbatim>\<open>int\<close> of such a text
  raises ValueError unless all characters are 0 to 9.
\<close>

definition is_digit_char :: "char \<Rightarrow> bool" where
  "is_digit_char c = (is_dec_digit c \<or> code c = 178 \<or> code c = 179 \<or> code c = 185)"

definition isdigit :: "string \<Rightarrow> bool" where
  "isdigit s = (s \<noteq> [] \<and> list_all is_digit_char s)"

definition int_of_digits :: "string \<Rightarrow> exn + nat" where
  "int_of_digits s = (if all_dec_digits s then Inr (digits_val s) else Inl ValueError)"

text \<open>
  \<^verbatim>\<open>
  def _gen_invoice_no(self):
      if os.path.exists(self.master_db_file):
          try:
              with open(self.master_db_file, "r", encoding="utf-8") as csvfile:
                  reader = csv.DictReader(csvfile)
                  last_invoice = None
                  for row in reader:
                      last_invoice = row.get("Invoice No", "")
                  if last_invoice:
                      try:
                          if last_invoice.isdigit():
                              next_num = int(last_invoice) + 1
                              return str(next_num)
                          else:
                              return datetime.datetime.now().strftime("%Y%m%d%H%M%S")
                      except ValueError:
                          return datetime.datetime.now().strftime("%Y%m%d%H%M%S")
          except Exception:
              pass
      return "1"
  \<close>
\<close>

definition last_invoice_of :: "(string \<times> cell) list list \<Rightarrow> cell" where
  "last_invoice_of rows = foldl (\<lambda>last_invoice row. get_field row ''Invoice No'') NoneVal rows"

definition gen_invoice_no :: "dbfile \<Rightarrow> datetime \<Rightarrow> string" where
  "gen_invoice_no f now =
     (if path_exists f then
        (case f of
           File c \<Rightarrow>
             (case DictReader (text_lines c) of
                (rows, Some x) \<Rightarrow> ''1''
              | (rows, None) \<Rightarrow>
                  (case last_invoice_of rows of
                     NoneVal \<Rightarrow> ''1''
                   | Str last_invoice \<Rightarrow>
                       if last_invoice \<noteq> [] then
                         (if isdigit last_invoice then
                            (case int_of_digits last_invoice of
                               Inl x \<Rightarrow> strftime_YmdHMS now
                             | Inr n \<Rightarrow> str_nat (n + 1))
                          else strftime_YmdHMS now)
                       else ''1''))
         | _ \<Rightarrow> ''1'')
      else ''1'')"

text \<open>
  The last recorded identifier of a store, as the generator reads it: the
  \<^verbatim>\<open>Invoice No\<close> of the last row, when the file can be read and that text is not empty.
\<close>

definition last_recorded_identifier :: "dbfile \<Rightarrow> string option" where
  "last_recorded_identifier f =
     (case f of
        File c \<Rightarrow>
          (case DictReader (text_lines c) of
             (rows, Some x) \<Rightarrow> None
           | (rows, None) \<Rightarrow>
               (case last_invoice_of rows of
                  NoneVal \<Rightarrow> None
                | Str s \<Rightarrow> if s \<noteq> [] then Some s else None))
      | _ \<Rightarrow> None)"

subsection \<open>The ROBOCEK deployment\<close>

text \<open>
  \<^verbatim>\<open>ROBOCEK_BILLING.py\<close> has its own \<^verbatim>\<open>D\<close>, \<^verbatim>\<open>fmt_money\<close> and
  \<^verbatim>\<open>_recalc_totals\<close>; they are embedded from that file. The calculator reads and writes
  variables that both programs have, so it is stated over the same record.
\<close>

definition ROBOCEK_D :: "pyval \<Rightarrow> exn + decimal" where
  "ROBOCEK_D v =
     (let d = (case Decimal_of v of None \<Rightarrow> Finite False 0 0 | Some d \<Rightarrow> d)
      in quantize_cent d)"

definition ROBOCEK_fmt_money :: "decimal \<Rightarrow> exn + string" where
  "ROBOCEK_fmt_money d = and_then (ROBOCEK_D (Num d)) (\<lambda>x. Inr (format_2f True x))"

definition ROBOCEK_recalc_totals :: "app \<Rightarrow> (exn + totals) \<times> app" where
  "ROBOCEK_recalc_totals a =
     (case (if items a \<noteq> [] then py_sum (map total (items a)) else Inr (Finite False 0 (- 2))) of
        Inl x \<Rightarrow> (Inl x, a)
      | Inr sub \<Rightarrow>
     (case ROBOCEK_fmt_money sub of
        Inl x \<Rightarrow> (Inl x, a)
      | Inr sub_text \<Rightarrow>
     let a1 = a\<lparr>subtotal_var := sub_text\<rparr>;
         dpct = (case ROBOCEK_D (Text (discount_pct a1)) of Inl x \<Rightarrow> Finite False 0 0 | Inr d \<Rightarrow> d)
     in
     (case and_then (and_then (dec_mul sub dpct) (\<lambda>x. dec_div x (Finite False 100 0))) quantize_cent of
        Inl x \<Rightarrow> (Inl x, a1)
      | Inr damt \<Rightarrow>
     (case ROBOCEK_fmt_money damt of
        Inl x \<Rightarrow> (Inl x, a1)
      | Inr damt_text \<Rightarrow>
     let a2 = a1\<lparr>discount_amt_var := damt_text\<rparr>;
         tpct = (case ROBOCEK_D (Text (tax_pct a2)) of Inl x \<Rightarrow> Finite False 0 0 | Inr d \<Rightarrow> d)
     in
     (case and_then (dec_sub sub damt) quantize_cent of
        Inl x \<Rightarrow> (Inl x, a2)
      | Inr txbl \<Rightarrow>
     (case and_then (and_then (dec_mul txbl tpct) (\<lambda>x. dec_div x (Finite False 100 0))) quantize_cent of
        Inl x \<Rightarrow> (Inl x, a2)
      | Inr tamt \<Rightarrow>
     (case ROBOCEK_fmt_money tamt of
        Inl x \<Rightarrow> (Inl x, a2)
      | Inr tamt_text \<Rightarrow>
     let a3 = a2\<lparr>tax_amt_var := tamt_text\<rparr>
     in
     (case and_then (dec_add txbl tamt) quantize_cent of
        Inl x \<Rightarrow> (Inl x, a3)
      | Inr g \<Rightarrow>
     (case ROBOCEK_fmt_money g of
        Inl x \<Rightarrow> (Inl x, a3)
      | Inr g_text \<Rightarrow>
        (Inr \<lparr>subtotal = sub, discount_amt = damt, taxable = txbl, tax_amt = tamt, grand = g\<rparr>,
         a3\<lparr>grand_total_var := g_text\<rparr>))))))))))"

subsection \<open>Notions used to state the properties\<close>












text \<open>
  The number a Decimal stands for (0 for an infinity and a NaN), its coefficient, and the
  rounding of the specification: \<open>round_half_up_2 x\<close> is \<open>x\<close> rounded to two fractional
  digits, a half rounded away from zero.
\<close>

definition val :: "decimal \<Rightarrow> rat" where
  "val d = (case d of Finite s c e \<Rightarrow> (if s then - 1 else 1) * of_nat c * 10 powi e | _ \<Rightarrow> 0)"

definition coefficient :: "decimal \<Rightarrow> nat" where
  "coefficient d = (case d of Finite s c e \<Rightarrow> c | _ \<Rightarrow> 0)"

definition round_half_up_2 :: "rat \<Rightarrow> rat" where
  "round_half_up_2 x = sgn x * of_int \<lfloor>\<bar>x\<bar> * 100 + 1 / 2\<rfloor> / 100"

text \<open>
  A percentage text is unparsable when \<^verbatim>\<open>Decimal\<close> rejects it or when \<^verbatim>\<open>D\<close>
  cannot round its value to two places.
\<close>

definition unparsable :: "string \<Rightarrow> bool" where
  "unparsable txt =
     (Decimal_str txt = None \<or> (case D (Text txt) of Inl x \<Rightarrow> True | Inr d \<Rightarrow> False))"

subsection \<open>Example data\<close>

text \<open>
  A form with the two items of the sample invoice (2 speakers at 250.00, 5 cables at 20.00),
  a discount of 10 percent and a tax of 18 percent.
\<close>

definition sample_items :: "item list" where
  "sample_items =
     [\<lparr>name = ''Speaker'', qty = Finite False 200 (- 2), price = Finite False 25000 (- 2),
       total = Finite False 50000 (- 2)\<rparr>,
      \<lparr>name = ''Cable'', qty = Finite False 500 (- 2), price = Finite False 2000 (- 2),
       total = Finite False 10000 (- 2)\<rparr>]"

definition sample_app :: app where
  "sample_app =
     \<lparr>chair_name = ''Harikesh O P'', chair_position = ''IEEE RAS SB Chairperson'',
      recipient_name = ''Asha'', recipient_phone = ''9800000000'',
      item_name = [], item_qty = ''1'', item_price = ''0.00'',
      discount_pct = ''10'', tax_pct = ''18'', items = sample_items,
      invoice_no_var = ''41'', date_var = ''2024-12-01 10:00:00'',
      tree = [(''Speaker'', ''2'', ''250.00'', ''500.00''), (''Cable'', ''5'', ''20.00'', ''100.00'')],
      subtotal_var = ''600.00'', discount_amt_var = ''60.00'', tax_amt_var = ''97.20'',
      grand_total_var = ''637.20''\<rparr>"

text \<open>A ROBOCEK form with the same items and percentages and other texts elsewhere.\<close>

definition sample_robocek_app :: app where
  "sample_robocek_app =
     sample_app\<lparr>chair_name := [], chair_position := [], recipient_name := ''Ravi'',
       recipient_phone := [], invoice_no_var := ''20241201123456'',
       subtotal_var := ''0.00'', discount_amt_var := ''0.00'', tax_amt_var := ''0.00'',
       grand_total_var := ''0.00''\<rparr>"





text \<open>The sample form with a discount of minus ten percent, and with a discount in words.\<close>

definition negative_discount_app :: app where
  "negative_discount_app = sample_app\<lparr>discount_pct := ''-10''\<rparr>"

definition worded_discount_app :: app where
  "worded_discount_app = sample_app\<lparr>discount_pct := ''ten''\<rparr>"

text \<open>The sample invoice for a recipient whose name holds a carriage return.\<close>

definition cr_app :: app where
  "cr_app = sample_app\<lparr>recipient_name := ''Asha'' @ [CR] @ ''Nair''\<rparr>"

text \<open>
  A form with one item of 100000000000000.01 and a discount of 10000000049.96 percent: the
  product of the subtotal and the percentage has 29 digits.
\<close>

definition long_product_app :: app where
  "long_product_app =
     sample_app\<lparr>items := [\<lparr>name = ''Engine'', qty = Finite False 100 (- 2),
         price = Finite False 10000000000000001 (- 2), total = Finite False 10000000000000001 (- 2)\<rparr>],
       discount_pct := ''10000000049.96'', tax_pct := ''0''\<rparr>"



definition first_db :: dbfile where
  "first_db = snd (save_to_master_db (sample_app\<lparr>invoice_no_var := ''1''\<rparr>) Missing)"

definition sample_now :: datetime where
  "sample_now = \<lparr>year = 2024, month = 12, day = 1, hour = 12, minute = 34, second = 56\<rparr>"

section \<open>Properties\<close>

subsection \<open>Evaluation of the model on concrete inputs\<close>

lemmas text_simps = strip_def isspace_def code_def split_sign_def lower_def all_dec_digits_def
  is_dec_digit_def digits_val_def digit_val_def parse_exponent_def parse_number_def
  representable_def max_exponent_def Decimal_str_def Decimal_of_def

lemmas dec_simps = D_def prec_def Emax_def Emin_def Etiny_def Etop_def ndigits.simps
  round_half_up_def round_half_even_def fix_ctx_def fix_nan_def and_then_def Let_def
  strip_zeros.simps hundred_def py_sum_def pct_of_def percent_amount_def negate_def

lemmas fmt_simps = fmt_money_def str_nat.simps digit_char_def group3_def sign_text_def

lemmas csv_simps = COMMA_def QUOTE_def CR_def LF_def needs_quote_def write_field_def writerow_def
  text_lines_def parse_reset_def parse_save_field_def parse_add_char_def end_of_line_def
  is_newline_def in_start_field_def parse_process_char_def feed_line_def csv_reader_def
  DictReader_def dict_row_def get_field_def header_def ledger_row_def path_exists_def
  save_to_master_db_def

lemmas gen_simps = last_invoice_of_def gen_invoice_no_def isdigit_def is_digit_char_def
  int_of_digits_def zero_pad_def strftime_YmdHMS_def last_recorded_identifier_def

subsection \<open>The two deployments\<close>

lemma ROBOCEK_D_eq: "ROBOCEK_D = D"
  by (rule ext) (simp add: ROBOCEK_D_def D_def)

lemma ROBOCEK_fmt_money_eq: "ROBOCEK_fmt_money = fmt_money"
  by (rule ext) (simp add: ROBOCEK_fmt_money_def fmt_money_def ROBOCEK_D_eq)

lemma ROBOCEK_recalc_totals_eq: "ROBOCEK_recalc_totals a = recalc_totals a"
  unfolding recalc_totals_def ROBOCEK_recalc_totals_def ROBOCEK_fmt_money_eq ROBOCEK_D_eq
    pct_of_def percent_amount_def hundred_def
  by (rule refl)

lemma recalc_totals_inputs:
  assumes "items a = items b" "discount_pct a = discount_pct b" "tax_pct a = tax_pct b"
  shows "fst (recalc_totals a) = fst (recalc_totals b)"
    and "fst (recalc_totals a) = Inr r \<Longrightarrow>
         subtotal_var (snd (recalc_totals a)) = subtotal_var (snd (recalc_totals b)) \<and>
         discount_amt_var (snd (recalc_totals a)) = discount_amt_var (snd (recalc_totals b)) \<and>
         tax_amt_var (snd (recalc_totals a)) = tax_amt_var (snd (recalc_totals b)) \<and>
         grand_total_var (snd (recalc_totals a)) = grand_total_var (snd (recalc_totals b))"
  using assms
  by (auto simp: recalc_totals_def Let_def split: sum.splits)

lemma recalc_totals_sample:
  "recalc_totals sample_app =
     (Inr \<lparr>subtotal = Finite False 60000 (- 2), discount_amt = Finite False 6000 (- 2),
            taxable = Finite False 54000 (- 2), tax_amt = Finite False 9720 (- 2),
            grand = Finite False 63720 (- 2)\<rparr>, sample_app)"
  by (simp add: recalc_totals_def sample_app_def sample_items_def text_simps dec_simps fmt_simps)

text \<open>
  Claim C8. The calculator of the IEEE program and the calculator of the ROBOCEK program,
  run on the same item list, the same discount text and the same tax text, end the same way:
  with the same exception, or with the same subtotal, discount amount, taxable amount, tax
  amount and grand total, and then the four displayed totals carry the same text.
\<close>

theorem calculators_agree:
  assumes "items a = items b" "discount_pct a = discount_pct b" "tax_pct a = tax_pct b"
  shows "fst (recalc_totals a) = fst (ROBOCEK_recalc_totals b) \<and>
         (\<forall>r. fst (recalc_totals a) = Inr r \<longrightarrow>
            subtotal_var (snd (recalc_totals a)) = subtotal_var (snd (ROBOCEK_recalc_totals b)) \<and>
            discount_amt_var (snd (recalc_totals a)) = discount_amt_var (snd (ROBOCEK_recalc_totals b)) \<and>
            tax_amt_var (snd (recalc_totals a)) = tax_amt_var (snd (ROBOCEK_recalc_totals b)) \<and>
            grand_total_var (snd (recalc_totals a)) = grand_total_var (snd (ROBOCEK_recalc_totals b)))"
  unfolding ROBOCEK_recalc_totals_eq
  using recalc_totals_inputs [OF assms] by blast

theorem calculators_agree_witness:
  "items sample_app = items sample_robocek_app \<and>
   discount_pct sample_app = discount_pct sample_robocek_app \<and>
   tax_pct sample_app = tax_pct sample_robocek_app \<and>
   fst (ROBOCEK_recalc_totals sample_robocek_app) =
     Inr \<lparr>subtotal = Finite False 60000 (- 2), discount_amt = Finite False 6000 (- 2),
           taxable = Finite False 54000 (- 2), tax_amt = Finite False 9720 (- 2),
           grand = Finite False 63720 (- 2)\<rparr> \<and>
   grand_total_var (snd (ROBOCEK_recalc_totals sample_robocek_app)) = ''637.20''"
proof -
  have i: "items sample_app = items sample_robocek_app"
    and d: "discount_pct sample_app = discount_pct sample_robocek_app"
    and t: "tax_pct sample_app = tax_pct sample_robocek_app"
    by (simp_all add: sample_robocek_app_def)
  have g: "grand_total_var sample_app = ''637.20''"
    by (simp add: sample_app_def)
  note agree = calculators_agree [OF i d t, unfolded recalc_totals_sample fst_conv snd_conv]
  from agree have "fst (ROBOCEK_recalc_totals sample_robocek_app) =
     Inr \<lparr>subtotal = Finite False 60000 (- 2), discount_amt = Finite False 6000 (- 2),
           taxable = Finite False 54000 (- 2), tax_amt = Finite False 9720 (- 2),
           grand = Finite False 63720 (- 2)\<rparr>"
    by simp
  moreover from agree g have "grand_total_var (snd (ROBOCEK_recalc_totals sample_robocek_app)) = ''637.20''"
    by metis
  ultimately show ?thesis using i d t by blast
qed

subsection \<open>The helper \<^verbatim>\<open>D\<close>\<close>

text \<open>
  Claim C6 says that no input makes \<^verbatim>\<open>D\<close> raise. The text \<^verbatim>\<open>Infinity\<close> is a
  Decimal literal, so the conversion inside the \<^verbatim>\<open>try\<close> succeeds, and the rounding to
  two places, which is outside the \<^verbatim>\<open>try\<close>, raises InvalidOperation out of
  \<^verbatim>\<open>D\<close>. The same happens for a value of 28 or more digits before the point, and
  \<^verbatim>\<open>NaN\<close> comes back as a NaN.
\<close>

theorem D_raises_on_Infinity:
  "D (Text ''Infinity'') = Inl InvalidOperation \<and>
   D (Text ''1e30'') = Inl InvalidOperation \<and>
   D (Text ''NaN'') = Inr (NaN False False 0)"
  by (simp add: text_simps dec_simps)

subsection \<open>The invoice number\<close>

lemma digit_char_is_digit: "is_dec_digit (digit_char d)"
proof -
  have "\<forall>k<10. is_dec_digit (''0123456789'' ! k)"
    by (simp add: eval_nat_numeral All_less_Suc is_dec_digit_def code_def)
  then show ?thesis by (simp add: digit_char_def)
qed

lemma str_nat_digits: "all_dec_digits (str_nat n)"
proof (induction n rule: str_nat.induct)
  case (1 n)
  show ?case
    using 1 by (subst str_nat.simps) (simp add: all_dec_digits_def digit_char_is_digit)
qed

lemma str_nat_nonempty: "str_nat n \<noteq> []"
  by (subst str_nat.simps) simp

lemma zero_pad_digits: "all_dec_digits (zero_pad w n)"
  using str_nat_digits [of n]
  by (auto simp: zero_pad_def all_dec_digits_def is_dec_digit_def code_def list_all_iff)

lemma strftime_digits: "all_dec_digits (strftime_YmdHMS t)"
  using zero_pad_digits by (simp add: strftime_YmdHMS_def all_dec_digits_def)

lemma strftime_nonempty: "strftime_YmdHMS t \<noteq> []"
  by (simp add: strftime_YmdHMS_def zero_pad_def str_nat_nonempty)




lemma dec_digits_isdigit: "s \<noteq> [] \<Longrightarrow> all_dec_digits s \<Longrightarrow> isdigit s"
  by (simp add: isdigit_def all_dec_digits_def is_digit_char_def list_all_iff)

lemma one_digits: "all_dec_digits ''1''"
  by (simp add: all_dec_digits_def is_dec_digit_def code_def)

lemma gen_invoice_no_digits: "gen_invoice_no f now \<noteq> [] \<and> all_dec_digits (gen_invoice_no f now)"
  by (auto simp: gen_invoice_no_def strftime_digits strftime_nonempty str_nat_digits str_nat_nonempty
      one_digits split: dbfile.splits prod.splits option.splits cell.splits sum.splits)

lemma gen_invoice_no_numeric:
  assumes "last_recorded_identifier f = Some s" and "all_dec_digits s"
  shows "gen_invoice_no f now = str_nat (digits_val s + 1)"
proof -
  from assms(1) have "s \<noteq> []"
    by (auto simp: last_recorded_identifier_def
        split: dbfile.splits prod.splits option.splits cell.splits if_splits)
  with assms(2) have "isdigit s" by (simp add: dec_digits_isdigit)
  with assms show ?thesis
    by (auto simp: last_recorded_identifier_def gen_invoice_no_def path_exists_def int_of_digits_def
        split: dbfile.splits prod.splits option.splits cell.splits if_splits)
qed



lemma first_db_last: "last_recorded_identifier first_db = Some ''1''"
  by (simp add: first_db_def sample_app_def sample_items_def gen_simps csv_simps fmt_simps
      and_then_def)







text \<open>
  Claim C10. Every identifier the IEEE generator returns is a non-empty text of the digits
  0 to 9. Hence, when the last recorded identifier of a store is an identifier that the
  generator returned, the next generation takes the numeric path and returns that number
  plus one.
\<close>

theorem generated_identifiers_numeric:
  "gen_invoice_no f now \<noteq> [] \<and> all_dec_digits (gen_invoice_no f now) \<and>
   (last_recorded_identifier f' = Some (gen_invoice_no f now) \<longrightarrow>
      gen_invoice_no f' now' = str_nat (digits_val (gen_invoice_no f now) + 1))"
  using gen_invoice_no_digits [of f now] gen_invoice_no_numeric [of f' "gen_invoice_no f now" now']
  by blast

theorem generated_identifiers_numeric_witness:
  "gen_invoice_no Missing sample_now = ''1'' \<and>
   last_recorded_identifier first_db = Some (gen_invoice_no Missing sample_now) \<and>
   gen_invoice_no first_db sample_now = ''2''"
proof -
  have g: "gen_invoice_no Missing sample_now = ''1''"
    by (simp add: gen_invoice_no_def path_exists_def)
  have l: "last_recorded_identifier first_db = Some (gen_invoice_no Missing sample_now)"
    by (simp add: g first_db_last)
  have "str_nat (digits_val ''1'' + 1) = ''2''"
    by (simp add: text_simps fmt_simps)
  with generated_identifiers_numeric [of Missing sample_now first_db sample_now] g l
  show ?thesis by simp
qed

subsection \<open>Adding an item\<close>























subsection \<open>Percentages that are negative or unparsable\<close>

lemma pct_of_unparsable:
  assumes "unparsable d"
  shows "pct_of d = Finite False 0 0 \<or> pct_of d = Finite False 0 (- 2)"
  using assms
  by (auto simp: unparsable_def pct_of_def D_def Decimal_of_def split: sum.splits)

lemma pct_of_zero_text: "pct_of ''0'' = Finite False 0 (- 2)"
  by (simp add: text_simps dec_simps)

lemma percent_amount_zero:
  "percent_amount base (Finite False 0 0) = percent_amount base (Finite False 0 (- 2))"
  by (cases base)
    (simp_all add: percent_amount_def and_then_def hundred_def fix_ctx_def fix_nan_def)

lemma percent_amount_unparsable:
  assumes "unparsable d"
  shows "percent_amount base (pct_of d) = percent_amount base (pct_of ''0'')"
  using pct_of_unparsable [OF assms] by (auto simp: pct_of_zero_text percent_amount_zero)

lemma recalc_totals_discount_text:
  assumes "\<And>base. percent_amount base (pct_of d) = percent_amount base (pct_of d')"
  shows "recalc_totals (a\<lparr>discount_pct := d'\<rparr>) =
     (fst (recalc_totals (a\<lparr>discount_pct := d\<rparr>)),
      (snd (recalc_totals (a\<lparr>discount_pct := d\<rparr>)))\<lparr>discount_pct := d'\<rparr>)"
  using assms by (auto simp: recalc_totals_def Let_def split: sum.splits)

lemma recalc_totals_tax_text:
  assumes "\<And>base. percent_amount base (pct_of t) = percent_amount base (pct_of t')"
  shows "recalc_totals (a\<lparr>tax_pct := t'\<rparr>) =
     (fst (recalc_totals (a\<lparr>tax_pct := t\<rparr>)),
      (snd (recalc_totals (a\<lparr>tax_pct := t\<rparr>)))\<lparr>tax_pct := t'\<rparr>)"
  using assms by (auto simp: recalc_totals_def Let_def split: sum.splits)

text \<open>
  Claim C3 says that a negative percentage is treated as zero. With a discount of minus ten
  percent on the sample invoice the discount amount is -60.00 and the taxable amount rises
  to 660.00; with a discount of 0 the discount amount is 0.00.
\<close>

theorem negative_discount_applied:
  "fst (recalc_totals negative_discount_app) =
     Inr \<lparr>subtotal = Finite False 60000 (- 2), discount_amt = Finite True 6000 (- 2),
           taxable = Finite False 66000 (- 2), tax_amt = Finite False 11880 (- 2),
           grand = Finite False 77880 (- 2)\<rparr> \<and>
   fst (recalc_totals (negative_discount_app\<lparr>discount_pct := ''0''\<rparr>)) =
     Inr \<lparr>subtotal = Finite False 60000 (- 2), discount_amt = Finite False 0 (- 2),
           taxable = Finite False 60000 (- 2), tax_amt = Finite False 10800 (- 2),
           grand = Finite False 70800 (- 2)\<rparr>"
  by (simp add: negative_discount_app_def sample_app_def sample_items_def recalc_totals_def
      text_simps dec_simps fmt_simps)

text \<open>
  Claim C3 as amended. An unparsable discount or tax percentage (a text that Decimal
  rejects, or a value that cannot be rounded to two places: an infinity, a signalling NaN, a
  value of 28 or more digits) is treated as zero: the calculator ends exactly as it ends
  with that percentage replaced by 0, with the same amounts and the same displayed totals,
  and with an exception only when the run with 0 has it. A negative percentage is applied
  with its sign.
\<close>

theorem unparsable_percentage_is_zero:
  "(unparsable d \<longrightarrow>
      recalc_totals (a\<lparr>discount_pct := ''0''\<rparr>) =
        (fst (recalc_totals (a\<lparr>discount_pct := d\<rparr>)),
         (snd (recalc_totals (a\<lparr>discount_pct := d\<rparr>)))\<lparr>discount_pct := ''0''\<rparr>)) \<and>
   (unparsable t \<longrightarrow>
      recalc_totals (a\<lparr>tax_pct := ''0''\<rparr>) =
        (fst (recalc_totals (a\<lparr>tax_pct := t\<rparr>)),
         (snd (recalc_totals (a\<lparr>tax_pct := t\<rparr>)))\<lparr>tax_pct := ''0''\<rparr>))"
  using recalc_totals_discount_text [of d "''0''" a] recalc_totals_tax_text [of t "''0''" a]
    percent_amount_unparsable [of d] percent_amount_unparsable [of t]
  by blast

lemma recalc_totals_worded:
  "recalc_totals worded_discount_app =
     (Inr \<lparr>subtotal = Finite False 60000 (- 2), discount_amt = Finite False 0 (- 2),
            taxable = Finite False 60000 (- 2), tax_amt = Finite False 10800 (- 2),
            grand = Finite False 70800 (- 2)\<rparr>,
      worded_discount_app\<lparr>subtotal_var := ''600.00'', discount_amt_var := ''0.00'',
        tax_amt_var := ''108.00'', grand_total_var := ''708.00''\<rparr>)"
  by (simp add: worded_discount_app_def sample_app_def sample_items_def recalc_totals_def
      text_simps dec_simps fmt_simps)

lemma worded_unparsable: "unparsable ''ten'' \<and> unparsable ''Infinity''"
  by (simp add: unparsable_def text_simps dec_simps)

theorem unparsable_percentage_is_zero_witness:
  "unparsable ''ten'' \<and> unparsable ''Infinity'' \<and>
   fst (recalc_totals (sample_app\<lparr>discount_pct := ''0''\<rparr>)) =
     Inr \<lparr>subtotal = Finite False 60000 (- 2), discount_amt = Finite False 0 (- 2),
           taxable = Finite False 60000 (- 2), tax_amt = Finite False 10800 (- 2),
           grand = Finite False 70800 (- 2)\<rparr> \<and>
   discount_amt_var (snd (recalc_totals (sample_app\<lparr>discount_pct := ''0''\<rparr>))) = ''0.00''"
proof -
  have w: "sample_app\<lparr>discount_pct := ''ten''\<rparr> = worded_discount_app"
    by (simp add: worded_discount_app_def)
  from unparsable_percentage_is_zero [of "''ten''" sample_app "''Infinity''"] worded_unparsable
  have "recalc_totals (sample_app\<lparr>discount_pct := ''0''\<rparr>) =
        (fst (recalc_totals worded_discount_app),
         (snd (recalc_totals worded_discount_app))\<lparr>discount_pct := ''0''\<rparr>)"
    unfolding w by blast
  then show ?thesis
    using worded_unparsable by (simp add: recalc_totals_worded)
qed

subsection \<open>The ledger store\<close>

lemma sample_round_trip:
  "refresh_history (snd (save_to_master_db sample_app Missing)) =
     ([[Str ''41'', Str ''2024-12-01 10:00:00'', Str ''Asha'', Str ''9800000000'', Str ''2'',
        Str ''600.00'', Str ''60.00'', Str ''97.20'', Str ''637.20'']], False)"
  by (simp add: sample_app_def sample_items_def refresh_history_def history_columns_def
      csv_simps fmt_simps and_then_def)

text \<open>
  Claim C7 says that the rows read back are field for field the rows appended. The store
  is written with \<^verbatim>\<open>newline=""\<close> and read without it, so a carriage return inside a
  field comes back as a line feed: the invoice appended for the recipient
  \<^verbatim>\<open>Asha\rNair\<close> is read back with the recipient \<^verbatim>\<open>Asha\nNair\<close>.
\<close>

theorem carriage_return_not_read_back:
  "save_to_master_db cr_app Missing =
     (None, File (writerow header @ writerow (ledger_row cr_app))) \<and>
   ledger_row cr_app ! 2 = ''Asha'' @ [CR] @ ''Nair'' \<and>
   refresh_history (snd (save_to_master_db cr_app Missing)) =
     ([[Str ''41'', Str ''2024-12-01 10:00:00'', Str (''Asha'' @ [LF] @ ''Nair''),
        Str ''9800000000'', Str ''2'', Str ''600.00'', Str ''60.00'', Str ''97.20'',
        Str ''637.20'']], False) \<and>
   ''Asha'' @ [LF] @ ''Nair'' \<noteq> ''Asha'' @ [CR] @ ''Nair''"
  by (simp add: cr_app_def sample_app_def sample_items_def refresh_history_def history_columns_def
      csv_simps fmt_simps and_then_def)

end
